theory Spec2Isabelle
  imports Complex_Main
begin

section \<open>Python values and failures\<close>

text \<open>
  The module \<^verbatim>\<open>sailfish/converter.py\<close> computes with Python numbers. Every number that
  the source may hold as a float is a \<^typ>\<open>real\<close> here: the arithmetic is the exact
  arithmetic that the floating-point operations approximate, so "equal within
  floating-point tolerance" reads as equality. A property that depends on the rounding
  error of those operations, such as the exact integer that \<^verbatim>\<open>int(round(x))\<close> returns
  on a computed coordinate, is outside this model. Lattice sizes, padding and cuts are
  Python integers, \<^typ>\<open>int\<close>. The module starts with
  \<^verbatim>\<open>from __future__ import division\<close>, so \<^verbatim>\<open>/\<close> is true division everywhere.

  The exceptions the module can raise are values of \<open>error\<close>; a computation that
  may raise returns \<open>error + 'a\<close>, with \<open>Inl\<close> for the exception.
\<close>

datatype error =
    KeyError
  | IndexError
  | ValueError
  | TypeError
  | ZeroDivisionError
  | AssertionError

definition bindE :: "error + 'a \<Rightarrow> ('a \<Rightarrow> error + 'b) \<Rightarrow> error + 'b" where
  "bindE m f = (case m of Inl e \<Rightarrow> Inl e | Inr x \<Rightarrow> f x)"

text \<open>\<^verbatim>\<open>d[k]\<close> on a dictionary: a key that is absent raises KeyError.\<close>

definition py_key :: "'a option \<Rightarrow> error + 'a" where
  "py_key v = (case v of None \<Rightarrow> Inl KeyError | Some x \<Rightarrow> Inr x)"

text \<open>
  \<^verbatim>\<open>xs[i]\<close> on a list, read and write: an index from \<open>-len\<close> to \<open>-1\<close> counts from
  the end, anything else outside \<open>0..len-1\<close> raises IndexError.
\<close>

definition py_slot :: "'a list \<Rightarrow> int \<Rightarrow> error + nat" where
  "py_slot xs i =
     (if 0 \<le> i \<and> i < int (length xs) then Inr (nat i)
      else if i < 0 \<and> - int (length xs) \<le> i then Inr (nat (int (length xs) + i))
      else Inl IndexError)"

definition py_get :: "'a list \<Rightarrow> int \<Rightarrow> error + 'a" where
  "py_get xs i = bindE (py_slot xs i) (\<lambda>k. Inr (xs ! k))"

definition py_set :: "'a list \<Rightarrow> int \<Rightarrow> 'a \<Rightarrow> error + 'a list" where
  "py_set xs i v = bindE (py_slot xs i) (\<lambda>k. Inr (xs[k := v]))"

text \<open>\<^verbatim>\<open>xs.index(y)\<close>: the first position of \<open>y\<close>, ValueError when there is none.\<close>

fun py_index :: "'a list \<Rightarrow> 'a \<Rightarrow> error + nat" where
  "py_index [] y = Inl ValueError"
| "py_index (x # xs) y =
     (if x = y then Inr 0 else bindE (py_index xs y) (\<lambda>k. Inr (Suc k)))"

text \<open>Arithmetic on \<^verbatim>\<open>None\<close> raises TypeError; division by zero raises ZeroDivisionError.\<close>

definition py_num :: "real option \<Rightarrow> error + real" where
  "py_num v = (case v of None \<Rightarrow> Inl TypeError | Some x \<Rightarrow> Inr x)"

definition py_div :: "real \<Rightarrow> real \<Rightarrow> error + real" where
  "py_div a b = (if b = 0 then Inl ZeroDivisionError else Inr (a / b))"

text \<open>
  \<^verbatim>\<open>int(round(x))\<close>. The source runs under Python 2 (where \<^verbatim>\<open>round\<close> rounds a tie
  away from zero) and under Python 3 (where a tie goes to the even neighbour); the
  interpreter is a parameter.
\<close>

datatype python = Py2 | Py3

definition round_half_away :: "real \<Rightarrow> int" where
  "round_half_away x = (if 0 \<le> x then \<lfloor>x + 1 / 2\<rfloor> else \<lceil>x - 1 / 2\<rceil>)"

definition round_half_even :: "real \<Rightarrow> int" where
  "round_half_even x =
     (if x - of_int \<lfloor>x\<rfloor> < 1 / 2 then \<lfloor>x\<rfloor>
      else if 1 / 2 < x - of_int \<lfloor>x\<rfloor> then \<lfloor>x\<rfloor> + 1
      else if even \<lfloor>x\<rfloor> then \<lfloor>x\<rfloor> else \<lfloor>x\<rfloor> + 1)"

definition py_round :: "python \<Rightarrow> real \<Rightarrow> int" where
  "py_round v x = (case v of Py2 \<Rightarrow> round_half_away x | Py3 \<Rightarrow> round_half_even x)"

section \<open>CoordinateConverter\<close>

text \<open>
  The configuration dictionary: each recognised key is present (\<open>Some\<close>) or absent.
  \<open>cfg_size\<close> is in lattice order (z, y, x); the other fields are in natural order.
\<close>

record config =
  cfg_axes :: "string option"
  cfg_bounding_box :: "(real \<times> real) list option"
  cfg_size :: "int list option"
  cfg_padding :: "int list option"
  cfg_cuts :: "(int \<times> int) list option"

record coordinate_converter =
  axes :: "int list"
  dx :: "real list"
  offset :: "int list"
  phys_min_x :: "real list"

text \<open>
  One iteration of the constructor's loop, for the natural axis \<open>i\<close> and its entry
  \<open>phys_size\<close> of the bounding box: the cell size, the offset and the physical
  minimum that the iteration appends. The lookups are in the order of the source.
\<close>

definition init_body :: "config \<Rightarrow> nat \<Rightarrow> real \<times> real \<Rightarrow> error + (real \<times> int \<times> real)" where
  "init_body cfg i phys_size =
     bindE (py_key (cfg_padding cfg)) (\<lambda>pad.
     bindE (py_get pad (2 * int i)) (\<lambda>p0.
     bindE (py_key (cfg_size cfg)) (\<lambda>sz.
     bindE (py_get sz (2 - int i)) (\<lambda>s.
     bindE (py_get pad (2 * int i + 1)) (\<lambda>p1.
     bindE (case cfg_cuts cfg of
              None \<Rightarrow> Inr (s - p0 - p1, - p0)
            | Some cs \<Rightarrow>
                bindE (py_get cs (int i)) (\<lambda>c.
                  Inr (s - p0 - p1 + (fst c + snd c), - p0 + fst c))) (\<lambda>so.
     if fst so = 0 then Inl ZeroDivisionError
     else Inr ((snd phys_size - fst phys_size) / of_int (fst so), snd so, fst phys_size)))))))"

text \<open>
  The loop over \<^verbatim>\<open>enumerate(config['bounding_box'])\<close>, from index \<open>i\<close> on: the three
  lists in the order of the appends. The first exception ends the construction.
\<close>

fun init_loop :: "config \<Rightarrow> nat \<Rightarrow> (real \<times> real) list \<Rightarrow> error + (real list \<times> int list \<times> real list)" where
  "init_loop cfg i [] = Inr ([], [], [])"
| "init_loop cfg i (phys_size # rest) =
     bindE (init_body cfg i phys_size) (\<lambda>r.
     bindE (init_loop cfg (Suc i) rest) (\<lambda>rs.
       Inr (fst r # fst rs, fst (snd r) # fst (snd rs), snd (snd r) # snd (snd rs))))"

definition CoordinateConverter_init :: "config \<Rightarrow> error + coordinate_converter" where
  "CoordinateConverter_init cfg =
     bindE (py_key (cfg_axes cfg)) (\<lambda>ax.
     bindE (py_index ax CHR ''x'') (\<lambda>ix.
     bindE (py_index ax CHR ''y'') (\<lambda>iy.
     bindE (py_index ax CHR ''z'') (\<lambda>iz.
     bindE (py_key (cfg_bounding_box cfg)) (\<lambda>bb.
     bindE (init_loop cfg 0 bb) (\<lambda>r.
       Inr \<lparr>axes = [int ix, int iy, int iz], dx = fst r,
            offset = fst (snd r), phys_min_x = snd (snd r)\<rparr>))))))"

text \<open>
  \<^verbatim>\<open>to_lb\<close>: the loop over \<^verbatim>\<open>enumerate(phys_pos)\<close> from index \<open>i\<close> on, with the list
  \<open>lb_pos\<close> it fills. The right-hand side of the assignment is evaluated before its
  target, and the target index \<^verbatim>\<open>2 - self.axes[i]\<close> may be negative.
\<close>

fun to_lb_loop :: "coordinate_converter \<Rightarrow> nat \<Rightarrow> real list \<Rightarrow> real list \<Rightarrow> error + real list" where
  "to_lb_loop c i [] lb_pos = Inr lb_pos"
| "to_lb_loop c i (phys_x # rest) lb_pos =
     bindE (py_get (phys_min_x c) (int i)) (\<lambda>m.
     bindE (py_get (dx c) (int i)) (\<lambda>d.
     bindE (py_div (phys_x - m) d) (\<lambda>q.
     bindE (py_get (offset c) (int i)) (\<lambda>off.
     bindE (py_get (axes c) (int i)) (\<lambda>a.
     bindE (py_set lb_pos (2 - a) (q - of_int off)) (\<lambda>lb_pos'.
       to_lb_loop c (Suc i) rest lb_pos'))))))"

text \<open>
  With \<^verbatim>\<open>round_\<close> (here \<open>rnd\<close>) the coordinates are the integers \<^verbatim>\<open>int(round(x))\<close>, which Python
  compares equal to the floats of the same value; they are embedded in \<^typ>\<open>real\<close>.
\<close>

definition to_lb :: "python \<Rightarrow> coordinate_converter \<Rightarrow> real list \<Rightarrow> bool \<Rightarrow> error + real list" where
  "to_lb v c phys_pos rnd =
     bindE (to_lb_loop c 0 phys_pos [0, 0, 0]) (\<lambda>lb_pos.
       Inr (if rnd then map (\<lambda>x. of_int (py_round v x)) lb_pos else lb_pos))"

fun from_lb_loop :: "coordinate_converter \<Rightarrow> nat \<Rightarrow> real list \<Rightarrow> real list \<Rightarrow> error + real list" where
  "from_lb_loop c i [] phys_pos = Inr phys_pos"
| "from_lb_loop c i (lb_x # rest) phys_pos =
     bindE (py_index (axes c) (2 - int i)) (\<lambda>j.
     bindE (py_get (dx c) (int j)) (\<lambda>d.
     bindE (py_get (offset c) (int j)) (\<lambda>off.
     bindE (py_get (phys_min_x c) (int j)) (\<lambda>m.
     bindE (py_set phys_pos (int j) (d * (lb_x + of_int off) + m)) (\<lambda>phys_pos'.
       from_lb_loop c (Suc i) rest phys_pos')))))"

definition from_lb :: "coordinate_converter \<Rightarrow> real list \<Rightarrow> error + real list" where
  "from_lb c lb_pos = from_lb_loop c 0 lb_pos [0, 0, 0]"

section \<open>UnitConverter\<close>

record unit_converter =
  phys_visc :: "real option"
  phys_len :: "real option"
  phys_vel :: "real option"
  phys_freq :: "real option"
  lb_visc :: "real option"
  lb_len :: "real option"
  lb_vel :: "real option"

text \<open>
  The constructor. With \<open>Re\<close> given, the \<^verbatim>\<open>if/elif/elif\<close> chain takes the first of
  visc, length, velocity that is \<^verbatim>\<open>None\<close> and computes it from the other two.
\<close>

definition UnitConverter_init ::
  "real option \<Rightarrow> real option \<Rightarrow> real option \<Rightarrow> real option \<Rightarrow> real option \<Rightarrow> error + unit_converter" where
  "UnitConverter_init visc len velocity Re_arg freq =
     (let u = \<lparr>phys_visc = visc, phys_len = len, phys_vel = velocity, phys_freq = freq,
               lb_visc = None, lb_len = None, lb_vel = None\<rparr>
      in case Re_arg of
           None \<Rightarrow> Inr u
         | Some re \<Rightarrow>
             if visc = None then
               bindE (py_num len) (\<lambda>l. bindE (py_num velocity) (\<lambda>w.
               bindE (py_div (l * w) re) (\<lambda>x. Inr (u\<lparr>phys_visc := Some x\<rparr>))))
             else if len = None then
               bindE (py_num visc) (\<lambda>nu. bindE (py_num velocity) (\<lambda>w.
               bindE (py_div (re * nu) w) (\<lambda>x. Inr (u\<lparr>phys_len := Some x\<rparr>))))
             else if velocity = None then
               bindE (py_num visc) (\<lambda>nu. bindE (py_num len) (\<lambda>l.
               bindE (py_div (re * nu) l) (\<lambda>x. Inr (u\<lparr>phys_vel := Some x\<rparr>))))
             else Inr u)"

text \<open>
  The property \<^verbatim>\<open>Re\<close>, named \<open>Re_phys\<close> here (\<open>Re\<close> is the real part of a
  complex number), and the property \<^verbatim>\<open>Re_lb\<close>.
\<close>

definition Re_phys :: "unit_converter \<Rightarrow> error + real" where
  "Re_phys u =
     bindE (py_num (phys_len u)) (\<lambda>l. bindE (py_num (phys_vel u)) (\<lambda>w.
     bindE (py_num (phys_visc u)) (\<lambda>nu. py_div (l * w) nu)))"

definition Re_lb :: "unit_converter \<Rightarrow> error + real" where
  "Re_lb u =
     bindE (py_num (lb_len u)) (\<lambda>l. bindE (py_num (lb_vel u)) (\<lambda>w.
     bindE (py_num (lb_visc u)) (\<lambda>nu. py_div (l * w) nu)))"

text \<open>
  The completion step mutates the converter and may raise after it has done so (the
  assertion follows the assignment), so it returns the converter as the call leaves it
  together with the exception raised, if any. The three tests are in the order of the
  source; each returns.
\<close>

definition update_missing_parameters :: "unit_converter \<Rightarrow> unit_converter \<times> error option" where
  "update_missing_parameters u =
     (case (lb_visc u, lb_len u, lb_vel u) of
        (None, Some l, Some w) \<Rightarrow>
          (case bindE (Re_phys u) (py_div (l * w)) of
             Inl e \<Rightarrow> (u, Some e)
           | Inr x \<Rightarrow>
               (u\<lparr>lb_visc := Some x\<rparr>, if x \<le> 1 / 6 then None else Some AssertionError))
      | (Some nu, None, Some w) \<Rightarrow>
          (case bindE (Re_phys u) (\<lambda>r. py_div (r * nu) w) of
             Inl e \<Rightarrow> (u, Some e)
           | Inr x \<Rightarrow> (u\<lparr>lb_len := Some x\<rparr>, None))
      | (Some nu, Some l, None) \<Rightarrow>
          (case bindE (Re_phys u) (\<lambda>r. py_div (r * nu) l) of
             Inl e \<Rightarrow> (u, Some e)
           | Inr x \<Rightarrow> (u\<lparr>lb_vel := Some x\<rparr>, None))
      | _ \<Rightarrow> (u, None))"

text \<open>
  \<^verbatim>\<open>set_lb\<close> first runs its three conditional assignments (\<open>set_lb_assign\<close> is the
  converter after them), then the completion step.
\<close>

definition set_lb_assign ::
  "unit_converter \<Rightarrow> real option \<Rightarrow> real option \<Rightarrow> real option \<Rightarrow> unit_converter" where
  "set_lb_assign u visc len velocity =
     u\<lparr>lb_visc := (case visc of None \<Rightarrow> lb_visc u | Some x \<Rightarrow> Some x),
       lb_len := (case len of None \<Rightarrow> lb_len u | Some x \<Rightarrow> Some x),
       lb_vel := (case velocity of None \<Rightarrow> lb_vel u | Some x \<Rightarrow> Some x)\<rparr>"

definition set_lb ::
  "unit_converter \<Rightarrow> real option \<Rightarrow> real option \<Rightarrow> real option \<Rightarrow> unit_converter \<times> error option" where
  "set_lb u visc len velocity = update_missing_parameters (set_lb_assign u visc len velocity)"

text \<open>The properties \<^verbatim>\<open>dx\<close> and \<^verbatim>\<open>dt\<close> of the unit converter.\<close>

definition uc_dx :: "unit_converter \<Rightarrow> error + real" where
  "uc_dx u =
     (case lb_len u of
        None \<Rightarrow> Inr 0
      | Some ll \<Rightarrow> bindE (py_num (phys_len u)) (\<lambda>pl. py_div pl ll))"

definition dt :: "unit_converter \<Rightarrow> error + real" where
  "dt u =
     (case lb_visc u of
        None \<Rightarrow> Inr 0
      | Some nu \<Rightarrow>
          bindE (py_num (phys_visc u)) (\<lambda>pv.
          bindE (py_div nu pv) (\<lambda>q.
          bindE (uc_dx u) (\<lambda>d. Inr (q * d ^ 2)))))"

section \<open>Vocabulary of the claims and concrete inputs\<close>

text \<open>
  The cut terms of an axis, zero when the configuration has no \<^verbatim>\<open>cuts\<close> key (the
  constructor adds them only under \<^verbatim>\<open>'cuts' in config\<close>).
\<close>

definition cut_fwd :: "config \<Rightarrow> nat \<Rightarrow> int" where
  "cut_fwd cfg i = (case cfg_cuts cfg of None \<Rightarrow> 0 | Some cs \<Rightarrow> fst (cs ! i))"

definition cut_back :: "config \<Rightarrow> nat \<Rightarrow> int" where
  "cut_back cfg i = (case cfg_cuts cfg of None \<Rightarrow> 0 | Some cs \<Rightarrow> snd (cs ! i))"

text \<open>The example scenario of the specification, and the converter it builds.\<close>

definition cfg_example :: config where
  "cfg_example =
     \<lparr>cfg_axes = Some ''xyz'', cfg_bounding_box = Some [(0, 1), (0, 2), (0, 3)],
      cfg_size = Some [12, 10, 8], cfg_padding = Some [0, 0, 0, 0, 0, 0], cfg_cuts = None\<rparr>"

definition conv_example :: coordinate_converter where
  "conv_example =
     \<lparr>axes = [0, 1, 2], dx = [0.125, 0.2, 0.25], offset = [0, 0, 0], phys_min_x = [0, 0, 0]\<rparr>"

text \<open>A configuration with shuffled axes, padding on every side and a cut on x.\<close>

definition cfg_padded :: config where
  "cfg_padded =
     \<lparr>cfg_axes = Some ''zxy'', cfg_bounding_box = Some [(0, 1), (0, 2), (0, 3)],
      cfg_size = Some [14, 13, 10], cfg_padding = Some [1, 2, 1, 2, 1, 1],
      cfg_cuts = Some [(1, 0), (0, 0), (0, 0)]\<rparr>"

definition conv_padded :: coordinate_converter where
  "conv_padded =
     \<lparr>axes = [1, 2, 0], dx = [1 / 8, 1 / 5, 1 / 4], offset = [0, - 1, - 1],
      phys_min_x = [0, 0, 0]\<rparr>"

text \<open>
  The configurations of the data model: \<^verbatim>\<open>axes\<close> one of the six permutations of "xyz",
  three bounding-box pairs, three sizes, six paddings, and \<^verbatim>\<open>cuts\<close> absent or three pairs.
\<close>

definition axes_permutations :: "string list" where
  "axes_permutations = [''xyz'', ''xzy'', ''yxz'', ''yzx'', ''zxy'', ''zyx'']"

definition well_formed :: "config \<Rightarrow> bool" where
  "well_formed cfg =
     ((case cfg_axes cfg of None \<Rightarrow> False | Some ax \<Rightarrow> ax \<in> set axes_permutations) \<and>
      (case cfg_bounding_box cfg of None \<Rightarrow> False | Some bb \<Rightarrow> length bb = 3) \<and>
      (case cfg_size cfg of None \<Rightarrow> False | Some sz \<Rightarrow> length sz = 3) \<and>
      (case cfg_padding cfg of None \<Rightarrow> False | Some pad \<Rightarrow> length pad = 6) \<and>
      (case cfg_cuts cfg of None \<Rightarrow> True | Some cs \<Rightarrow> length cs = 3))"

text \<open>
  The lattice size of natural axis \<open>i\<close> with the padding removed and the cuts added
  back (the divisor of the constructor), and the two conditions "no such size is zero"
  and "no axis of the bounding box has zero width".
\<close>

definition unpadded_uncut_size :: "config \<Rightarrow> nat \<Rightarrow> int" where
  "unpadded_uncut_size cfg i =
     (case cfg_size cfg of
        None \<Rightarrow> 0
      | Some sz \<Rightarrow>
          (case cfg_padding cfg of
             None \<Rightarrow> 0
           | Some pad \<Rightarrow>
               sz ! (2 - i) - pad ! (2 * i) - pad ! (2 * i + 1) + cut_fwd cfg i + cut_back cfg i))"

definition nonzero_sizes :: "config \<Rightarrow> bool" where
  "nonzero_sizes cfg = list_all (\<lambda>i. unpadded_uncut_size cfg i \<noteq> 0) [0, 1, 2]"

definition nonzero_widths :: "config \<Rightarrow> bool" where
  "nonzero_widths cfg =
     (case cfg_bounding_box cfg of None \<Rightarrow> False | Some bb \<Rightarrow> list_all (\<lambda>b. fst b \<noteq> snd b) bb)"

text \<open>
  A configuration with a degenerate bounding box, a slab of zero width on z, and the
  converter it builds.
\<close>

definition cfg_flat :: config where
  "cfg_flat =
     \<lparr>cfg_axes = Some ''xyz'', cfg_bounding_box = Some [(0, 1), (0, 1), (0, 0)],
      cfg_size = Some [1, 8, 8], cfg_padding = Some [0, 0, 0, 0, 0, 0], cfg_cuts = None\<rparr>"

definition conv_flat :: coordinate_converter where
  "conv_flat =
     \<lparr>axes = [0, 1, 2], dx = [1 / 8, 1 / 8, 0], offset = [0, 0, 0], phys_min_x = [0, 0, 0]\<rparr>"

text \<open>How many of the three lattice fields are set.\<close>

definition n_set :: "unit_converter \<Rightarrow> nat" where
  "n_set u = length (filter (\<lambda>f. f \<noteq> None) [lb_visc u, lb_len u, lb_vel u])"

text \<open>
  \<^verbatim>\<open>UnitConverter(visc=1, length=1, velocity=1)\<close> and
  \<^verbatim>\<open>UnitConverter(length=1, velocity=1)\<close>, as the constructor leaves them.
\<close>

definition uc_unit :: unit_converter where
  "uc_unit = \<lparr>phys_visc = Some 1, phys_len = Some 1, phys_vel = Some 1, phys_freq = None,
     lb_visc = None, lb_len = None, lb_vel = None\<rparr>"

definition uc_no_visc :: unit_converter where
  "uc_no_visc = \<lparr>phys_visc = None, phys_len = Some 1, phys_vel = Some 1, phys_freq = None,
     lb_visc = None, lb_len = None, lb_vel = None\<rparr>"

section \<open>Evaluation rules\<close>

lemma bindE_Inl [simp]: "bindE (Inl e) f = Inl e"
  by (simp add: bindE_def)

lemma bindE_Inr [simp]: "bindE (Inr x) f = f x"
  by (simp add: bindE_def)

lemma bindE_eq_Inr: "bindE m f = Inr y \<longleftrightarrow> (\<exists>x. m = Inr x \<and> f x = Inr y)"
  by (cases m) simp_all

lemmas py_simps = py_key_def py_slot_def py_get_def py_set_def py_num_def py_div_def

lemma round_half_away_of_int: "round_half_away (of_int n) = n"
proof -
  have "\<lfloor>real_of_int n + 1 / 2\<rfloor> = n" by (rule floor_unique) simp_all
  moreover have "\<lceil>real_of_int n - 1 / 2\<rceil> = n" by (rule ceiling_unique) simp_all
  ultimately show ?thesis by (simp add: round_half_away_def)
qed

lemma round_half_even_of_int: "round_half_even (of_int n) = n"
  by (simp add: round_half_even_def)

lemma py_round_of_int [simp]: "py_round v (of_int n) = n"
  by (cases v) (simp_all add: py_round_def round_half_away_of_int round_half_even_of_int)

section \<open>The example scenario\<close>

lemma init_example: "CoordinateConverter_init cfg_example = Inr conv_example"
  by (simp add: CoordinateConverter_init_def cfg_example_def conv_example_def init_body_def
      py_simps)

lemma init_padded: "CoordinateConverter_init cfg_padded = Inr conv_padded"
  by (simp add: CoordinateConverter_init_def cfg_padded_def conv_padded_def init_body_def
      py_simps)

lemma to_lb_example: "to_lb v conv_example [0.5, 1.0, 1.5] True = Inr [6, 5, 4]"
proof -
  have "to_lb_loop conv_example 0 [0.5, 1.0, 1.5] [0, 0, 0] = Inr [of_int 6, of_int 5, of_int 4]"
    by (simp add: conv_example_def py_simps)
  then show ?thesis
    unfolding to_lb_def by (simp del: of_int_numeral)
qed

text \<open>
  C1. The configuration of the example scenario (axes "xyz", size [12, 10, 8] in lattice
  order, no padding, no cuts, bounding box [(0, 1), (0, 2), (0, 3)]) builds a converter
  whose cell sizes are [0.125, 0.2, 0.25] for (x, y, z), and \<^verbatim>\<open>to_lb([0.5, 1.0, 1.5])\<close>
  with rounding returns [6, 5, 4] in lattice order, under either rounding of ties.
\<close>

theorem example_scenario:
  "CoordinateConverter_init cfg_example = Inr conv_example \<and>
   dx conv_example = [0.125, 0.2, 0.25] \<and>
   to_lb v conv_example [0.5, 1.0, 1.5] True = Inr [6, 5, 4]"
  using init_example to_lb_example by (simp add: conv_example_def)

text \<open>
  Rounding at work on the same converter: the position [0.55, 1.0, 1.45] has the
  unrounded lattice coordinates [5.8, 5, 4.4], which round to [6, 5, 4].
\<close>

lemma to_lb_rounds_example:
  "to_lb v conv_example [0.55, 1.0, 1.45] True = Inr [6, 5, 4] \<and>
   to_lb v conv_example [0.55, 1.0, 1.45] False = Inr [29 / 5, 5, 22 / 5]"
proof -
  have l: "to_lb_loop conv_example 0 [0.55, 1.0, 1.45] [0, 0, 0] = Inr [29 / 5, 5, 22 / 5]"
    by (simp add: conv_example_def py_simps)
  have f: "\<lfloor>29 / 5 :: real\<rfloor> = 5" "\<lfloor>22 / 5 :: real\<rfloor> = 4" "\<lfloor>63 / 10 :: real\<rfloor> = 6"
    "\<lfloor>49 / 10 :: real\<rfloor> = 4" "\<lfloor>11 / 2 :: real\<rfloor> = 5"
    by (simp_all add: floor_eq_iff)
  have r: "py_round v (29 / 5) = 6" "py_round v 5 = 5" "py_round v (22 / 5) = 4"
    using py_round_of_int [of v 5]
    by (cases v; simp add: py_round_def round_half_away_def round_half_even_def f)+
  show ?thesis unfolding to_lb_def l by (simp add: r)
qed

section \<open>What the constructor stores\<close>

lemma init_loop_nth:
  "init_loop cfg k bs = Inr r \<Longrightarrow>
     length (fst r) = length bs \<and> length (fst (snd r)) = length bs \<and>
     length (snd (snd r)) = length bs \<and>
     (\<forall>j<length bs. init_body cfg (k + j) (bs ! j) = Inr (fst r ! j, fst (snd r) ! j, snd (snd r) ! j))"
proof (induction bs arbitrary: k r)
  case Nil
  then show ?case by auto
next
  case (Cons b bs)
  from Cons.prems obtain h t where h: "init_body cfg k b = Inr h"
    and t: "init_loop cfg (Suc k) bs = Inr t"
    and r: "r = (fst h # fst t, fst (snd h) # fst (snd t), snd (snd h) # snd (snd t))"
    by (auto simp: bindE_eq_Inr)
  note ih = Cons.IH [OF t]
  show ?case
  proof (intro conjI allI impI)
    fix j assume "j < length (b # bs)"
    then show "init_body cfg (k + j) ((b # bs) ! j) = Inr (fst r ! j, fst (snd r) ! j, snd (snd r) ! j)"
      using h ih r by (cases j) auto
  qed (use ih r in auto)
qed


lemma py_get_nat: "py_get xs (int k) = Inr y \<longleftrightarrow> k < length xs \<and> y = xs ! k"
  by (auto simp: py_get_def py_slot_def)

lemma init_body_Inr:
  assumes "init_body cfg i b = Inr r" and "i < 3"
    and "cfg_size cfg = Some sz" and "cfg_padding cfg = Some pad"
  shows "sz ! (2 - i) - pad ! (2 * i) - pad ! (2 * i + 1) + cut_fwd cfg i + cut_back cfg i \<noteq> 0"
    and "fst r = (snd b - fst b) /
           of_int (sz ! (2 - i) - pad ! (2 * i) - pad ! (2 * i + 1) + cut_fwd cfg i + cut_back cfg i)"
    and "fst (snd r) = - pad ! (2 * i) + cut_fwd cfg i"
    and "snd (snd r) = fst b"
    and "2 * i + 1 < length pad"
proof -
  from assms(2) consider "i = 0" | "i = 1" | "i = 2" by linarith
  then have "sz ! (2 - i) - pad ! (2 * i) - pad ! (2 * i + 1) + cut_fwd cfg i + cut_back cfg i \<noteq> 0 \<and>
     fst r = (snd b - fst b) /
           of_int (sz ! (2 - i) - pad ! (2 * i) - pad ! (2 * i + 1) + cut_fwd cfg i + cut_back cfg i) \<and>
     fst (snd r) = - pad ! (2 * i) + cut_fwd cfg i \<and> snd (snd r) = fst b \<and> 2 * i + 1 < length pad"
  proof cases
    case 1
    with assms(1) show ?thesis unfolding init_body_def assms(3,4)
      by (auto simp: bindE_eq_Inr py_key_def py_get_def py_slot_def cut_fwd_def cut_back_def
          split: if_splits option.splits)
  next
    case 2
    with assms(1) show ?thesis unfolding init_body_def assms(3,4)
      by (auto simp: bindE_eq_Inr py_key_def py_get_def py_slot_def cut_fwd_def cut_back_def
          split: if_splits option.splits)
  next
    case 3
    with assms(1) show ?thesis unfolding init_body_def assms(3,4)
      by (auto simp: bindE_eq_Inr py_key_def py_get_def py_slot_def cut_fwd_def cut_back_def
          split: if_splits option.splits)
  qed
  then show "sz ! (2 - i) - pad ! (2 * i) - pad ! (2 * i + 1) + cut_fwd cfg i + cut_back cfg i \<noteq> 0"
    and "fst r = (snd b - fst b) /
           of_int (sz ! (2 - i) - pad ! (2 * i) - pad ! (2 * i + 1) + cut_fwd cfg i + cut_back cfg i)"
    and "fst (snd r) = - pad ! (2 * i) + cut_fwd cfg i"
    and "snd (snd r) = fst b"
    and "2 * i + 1 < length pad"
    by blast+
qed

lemma init_Inr:
  assumes "CoordinateConverter_init cfg = Inr c" and "cfg_bounding_box cfg = Some bb"
  shows "init_loop cfg 0 bb = Inr (dx c, offset c, phys_min_x c)"
  using assms unfolding CoordinateConverter_init_def
  by (auto simp: bindE_eq_Inr py_key_def)

lemma stored_cell_size_and_offset:
  assumes "CoordinateConverter_init cfg = Inr c"
    and "cfg_bounding_box cfg = Some bb" and "cfg_size cfg = Some sz"
    and "cfg_padding cfg = Some pad"
    and "i < 3" and "i < length bb"
  shows "sz ! (2 - i) - pad ! (2 * i) - pad ! (2 * i + 1) + cut_fwd cfg i + cut_back cfg i \<noteq> 0 \<and>
     dx c ! i = (snd (bb ! i) - fst (bb ! i)) /
        of_int (sz ! (2 - i) - pad ! (2 * i) - pad ! (2 * i + 1) + cut_fwd cfg i + cut_back cfg i) \<and>
     offset c ! i = - pad ! (2 * i) + cut_fwd cfg i \<and>
     (cfg_cuts cfg = None \<and> (\<forall>p\<in>set pad. p = 0) \<longrightarrow>
        dx c ! i = (snd (bb ! i) - fst (bb ! i)) / of_int (sz ! (2 - i)) \<and> offset c ! i = 0)"
proof -
  from init_loop_nth [OF init_Inr [OF assms(1,2)] ] assms(6)
  have len: "length (dx c) = length bb"
    and b: "init_body cfg i (bb ! i) = Inr (dx c ! i, offset c ! i, phys_min_x c ! i)"
    by auto
  note f = init_body_Inr [OF b assms(5,3,4)]
  have k: "2 * i < length pad" "2 * i + 1 < length pad"
    using f(5) by simp_all
  have z: "cfg_cuts cfg = None \<and> (\<forall>p\<in>set pad. p = 0) \<longrightarrow>
        dx c ! i = (snd (bb ! i) - fst (bb ! i)) / of_int (sz ! (2 - i)) \<and> offset c ! i = 0"
  proof
    assume a: "cfg_cuts cfg = None \<and> (\<forall>p\<in>set pad. p = 0)"
    then have "pad ! (2 * i) = 0" "pad ! (2 * i + 1) = 0" using k by auto
    moreover from a have "cut_fwd cfg i = 0" "cut_back cfg i = 0"
      by (simp_all add: cut_fwd_def cut_back_def)
    ultimately show "dx c ! i = (snd (bb ! i) - fst (bb ! i)) / of_int (sz ! (2 - i)) \<and> offset c ! i = 0"
      using f(2,3) by simp
  qed
  from f(1) f(2) f(3) z show ?thesis
    unfolding fst_conv snd_conv by (intro conjI)
qed

section \<open>Construction on the configurations of the data model\<close>

lemma length3: "length xs = 3 \<Longrightarrow> \<exists>a b c. xs = [a, b, c]"
  by (auto simp: numeral_3_eq_3 length_Suc_conv)

lemma length6: "length xs = 6 \<Longrightarrow> \<exists>a b c d e f. xs = [a, b, c, d, e, f]"
  by (auto simp: eval_nat_numeral length_Suc_conv)

lemma init_body_ok:
  assumes "i < 3" and "cfg_size cfg = Some sz" and "length sz = 3"
    and "cfg_padding cfg = Some pad" and "length pad = 6"
    and "case cfg_cuts cfg of None \<Rightarrow> True | Some cs \<Rightarrow> length cs = 3"
    and "unpadded_uncut_size cfg i \<noteq> 0"
  shows "init_body cfg i b =
     Inr ((snd b - fst b) / of_int (unpadded_uncut_size cfg i),
          - pad ! (2 * i) + cut_fwd cfg i, fst b)"
proof -
  from assms(3) obtain s0 s1 s2 where sz: "sz = [s0, s1, s2]" using length3 by blast
  from assms(5) obtain p0 p1 p2 p3 p4 p5 where pad: "pad = [p0, p1, p2, p3, p4, p5]"
    using length6 by blast
  from assms(1) consider "i = 0" | "i = 1" | "i = 2" by linarith
  then show ?thesis
  proof cases
    case 1
    show ?thesis
    proof (cases "cfg_cuts cfg")
      case None
      with 1 assms(7) show ?thesis
        unfolding init_body_def unpadded_uncut_size_def assms(2,4) sz pad
        by (simp add: py_simps cut_fwd_def cut_back_def)
    next
      case (Some cs)
      with assms(6) obtain c0 c1 c2 where "cs = [c0, c1, c2]" using length3 by fastforce
      with Some 1 assms(7) show ?thesis
        unfolding init_body_def unpadded_uncut_size_def assms(2,4) sz pad
        by (simp add: py_simps cut_fwd_def cut_back_def)
    qed
  next
    case 2
    show ?thesis
    proof (cases "cfg_cuts cfg")
      case None
      with 2 assms(7) show ?thesis
        unfolding init_body_def unpadded_uncut_size_def assms(2,4) sz pad
        by (simp add: py_simps cut_fwd_def cut_back_def)
    next
      case (Some cs)
      with assms(6) obtain c0 c1 c2 where "cs = [c0, c1, c2]" using length3 by fastforce
      with Some 2 assms(7) show ?thesis
        unfolding init_body_def unpadded_uncut_size_def assms(2,4) sz pad
        by (simp add: py_simps cut_fwd_def cut_back_def)
    qed
  next
    case 3
    show ?thesis
    proof (cases "cfg_cuts cfg")
      case None
      with 3 assms(7) show ?thesis
        unfolding init_body_def unpadded_uncut_size_def assms(2,4) sz pad
        by (simp add: py_simps cut_fwd_def cut_back_def)
    next
      case (Some cs)
      with assms(6) obtain c0 c1 c2 where "cs = [c0, c1, c2]" using length3 by fastforce
      with Some 3 assms(7) show ?thesis
        unfolding init_body_def unpadded_uncut_size_def assms(2,4) sz pad
        by (simp add: py_simps cut_fwd_def cut_back_def)
    qed
  qed
qed

lemma axes_of_permutation:
  assumes "ax \<in> set axes_permutations"
  shows "\<exists>ix iy iz. py_index ax CHR ''x'' = Inr ix \<and> py_index ax CHR ''y'' = Inr iy \<and>
     py_index ax CHR ''z'' = Inr iz \<and>
     [int ix, int iy, int iz] \<in> set [ [0, 1, 2], [0, 2, 1], [1, 0, 2], [2, 0, 1], [1, 2, 0], [2, 1, 0] ]"
  using assms unfolding axes_permutations_def by auto

lemma init_well_formed:
  assumes "well_formed cfg" and "nonzero_sizes cfg"
  shows "\<exists>a b0 b1 b2 pad.
     cfg_bounding_box cfg = Some [b0, b1, b2] \<and> cfg_padding cfg = Some pad \<and>
     a \<in> set [ [0, 1, 2], [0, 2, 1], [1, 0, 2], [2, 0, 1], [1, 2, 0], [2, 1, 0] ] \<and>
     CoordinateConverter_init cfg =
       Inr \<lparr>axes = a,
            dx = [(snd b0 - fst b0) / of_int (unpadded_uncut_size cfg 0),
                  (snd b1 - fst b1) / of_int (unpadded_uncut_size cfg 1),
                  (snd b2 - fst b2) / of_int (unpadded_uncut_size cfg 2)],
            offset = [- pad ! 0 + cut_fwd cfg 0, - pad ! 2 + cut_fwd cfg 1,
                      - pad ! 4 + cut_fwd cfg 2],
            phys_min_x = [fst b0, fst b1, fst b2]\<rparr>"
proof -
  from assms(1) obtain ax bb sz pad where
    ax: "cfg_axes cfg = Some ax" "ax \<in> set axes_permutations"
    and bb: "cfg_bounding_box cfg = Some bb" "length bb = 3"
    and sz: "cfg_size cfg = Some sz" "length sz = 3"
    and pad: "cfg_padding cfg = Some pad" "length pad = 6"
    and cs: "case cfg_cuts cfg of None \<Rightarrow> True | Some cs \<Rightarrow> length cs = 3"
    by (auto simp: well_formed_def split: option.splits)
  from bb(2) obtain b0 b1 b2 where b: "bb = [b0, b1, b2]" using length3 by blast
  from assms(2) have nz: "unpadded_uncut_size cfg 0 \<noteq> 0" "unpadded_uncut_size cfg 1 \<noteq> 0"
    "unpadded_uncut_size cfg 2 \<noteq> 0"
    by (simp_all add: nonzero_sizes_def)
  have s0: "init_body cfg 0 b0 =
      Inr ((snd b0 - fst b0) / of_int (unpadded_uncut_size cfg 0), - pad ! 0 + cut_fwd cfg 0, fst b0)"
    using init_body_ok [OF _ sz pad cs nz(1), of b0] by simp
  have s1: "init_body cfg (Suc 0) b1 =
      Inr ((snd b1 - fst b1) / of_int (unpadded_uncut_size cfg 1), - pad ! 2 + cut_fwd cfg 1, fst b1)"
    using init_body_ok [OF _ sz pad cs nz(2), of b1] by simp
  have s2: "init_body cfg 2 b2 =
      Inr ((snd b2 - fst b2) / of_int (unpadded_uncut_size cfg 2), - pad ! 4 + cut_fwd cfg 2, fst b2)"
    using init_body_ok [OF _ sz pad cs nz(3), of b2] by simp
  have e2: "Suc (Suc 0) = 2" by simp
  have loop: "init_loop cfg 0 bb =
      Inr ([(snd b0 - fst b0) / of_int (unpadded_uncut_size cfg 0),
            (snd b1 - fst b1) / of_int (unpadded_uncut_size cfg 1),
            (snd b2 - fst b2) / of_int (unpadded_uncut_size cfg 2)],
           [- pad ! 0 + cut_fwd cfg 0, - pad ! 2 + cut_fwd cfg 1, - pad ! 4 + cut_fwd cfg 2],
           [fst b0, fst b1, fst b2])"
    unfolding b by (simp add: s0 s1 s2 e2)
  from axes_of_permutation [OF ax(2)] obtain ix iy iz where
    i: "py_index ax CHR ''x'' = Inr ix" "py_index ax CHR ''y'' = Inr iy"
      "py_index ax CHR ''z'' = Inr iz"
    and a: "[int ix, int iy, int iz] \<in>
      set [ [0, 1, 2], [0, 2, 1], [1, 0, 2], [2, 0, 1], [1, 2, 0], [2, 1, 0] ]"
    by blast
  have "CoordinateConverter_init cfg =
       Inr \<lparr>axes = [int ix, int iy, int iz],
            dx = [(snd b0 - fst b0) / of_int (unpadded_uncut_size cfg 0),
                  (snd b1 - fst b1) / of_int (unpadded_uncut_size cfg 1),
                  (snd b2 - fst b2) / of_int (unpadded_uncut_size cfg 2)],
            offset = [- pad ! 0 + cut_fwd cfg 0, - pad ! 2 + cut_fwd cfg 1,
                      - pad ! 4 + cut_fwd cfg 2],
            phys_min_x = [fst b0, fst b1, fst b2]\<rparr>"
    unfolding CoordinateConverter_init_def ax(1)
    by (simp add: py_key_def bb(1) loop i)
  with a bb(1) b pad(1) show ?thesis by blast
qed

lemma well_formed_padded:
  "well_formed cfg_padded \<and> nonzero_sizes cfg_padded \<and> nonzero_widths cfg_padded"
  by (simp add: well_formed_def nonzero_sizes_def nonzero_widths_def unpadded_uncut_size_def
      cut_fwd_def cut_back_def cfg_padded_def axes_permutations_def)

lemma init_nondegenerate:
  assumes "well_formed cfg" and "nonzero_sizes cfg" and "nonzero_widths cfg"
  shows "\<exists>a d0 d1 d2 o0 o1 o2 m0 m1 m2.
     a \<in> set [ [0, 1, 2], [0, 2, 1], [1, 0, 2], [2, 0, 1], [1, 2, 0], [2, 1, 0] ] \<and>
     d0 \<noteq> 0 \<and> d1 \<noteq> 0 \<and> d2 \<noteq> 0 \<and>
     CoordinateConverter_init cfg =
       Inr \<lparr>axes = a, dx = [d0, d1, d2], offset = [o0, o1, o2], phys_min_x = [m0, m1, m2]\<rparr>"
proof -
  from init_well_formed [OF assms(1,2)] obtain a b0 b1 b2 pad where
    bb: "cfg_bounding_box cfg = Some [b0, b1, b2]"
    and a: "a \<in> set [ [0, 1, 2], [0, 2, 1], [1, 0, 2], [2, 0, 1], [1, 2, 0], [2, 1, 0] ]"
    and c: "CoordinateConverter_init cfg =
       Inr \<lparr>axes = a,
            dx = [(snd b0 - fst b0) / of_int (unpadded_uncut_size cfg 0),
                  (snd b1 - fst b1) / of_int (unpadded_uncut_size cfg 1),
                  (snd b2 - fst b2) / of_int (unpadded_uncut_size cfg 2)],
            offset = [- pad ! 0 + cut_fwd cfg 0, - pad ! 2 + cut_fwd cfg 1,
                      - pad ! 4 + cut_fwd cfg 2],
            phys_min_x = [fst b0, fst b1, fst b2]\<rparr>"
    by blast
  from assms(2) have nz: "unpadded_uncut_size cfg 0 \<noteq> 0" "unpadded_uncut_size cfg 1 \<noteq> 0"
    "unpadded_uncut_size cfg 2 \<noteq> 0"
    by (simp_all add: nonzero_sizes_def)
  from assms(3) bb have w: "fst b0 \<noteq> snd b0" "fst b1 \<noteq> snd b1" "fst b2 \<noteq> snd b2"
    by (simp_all add: nonzero_widths_def)
  have "(snd b0 - fst b0) / of_int (unpadded_uncut_size cfg 0) \<noteq> 0"
    "(snd b1 - fst b1) / of_int (unpadded_uncut_size cfg 1) \<noteq> 0"
    "(snd b2 - fst b2) / of_int (unpadded_uncut_size cfg 2) \<noteq> 0"
    using nz w by simp_all
  with a c show ?thesis by blast
qed

section \<open>The stored cell sizes and offsets\<close>

lemma well_formed_example: "well_formed cfg_example \<and> nonzero_sizes cfg_example"
  by (simp add: well_formed_def nonzero_sizes_def unpadded_uncut_size_def
      cut_fwd_def cut_back_def cfg_example_def axes_permutations_def)

lemma init_succeeds:
  assumes "well_formed cfg" and "nonzero_sizes cfg"
  shows "\<exists>c. CoordinateConverter_init cfg = Inr c"
  using init_well_formed [OF assms] by blast

text \<open>
  C4. On a configuration of the data model whose per-axis lattice sizes are nonzero the
  construction succeeds. After a construction that succeeds, for each natural axis \<open>i\<close>
  in 0..2 the stored cell size is the width of the bounding box on that axis divided by
  \<open>size[2-i] - padding[2i] - padding[2i+1] + cuts[i][0] + cuts[i][1]\<close> (a divisor that
  is not zero, the cut terms being zero without cuts), and the stored offset is
  \<open>-padding[2i] + cuts[i][0]\<close>. With all-zero padding and no cuts the cell size is
  the width divided by \<open>size[2-i]\<close> and the offset is 0.
\<close>

theorem cell_size_and_offset:
  assumes "well_formed cfg"
    and "cfg_bounding_box cfg = Some bb" and "cfg_size cfg = Some sz"
    and "cfg_padding cfg = Some pad"
    and "i < 3"
  shows "(nonzero_sizes cfg \<longrightarrow> (\<exists>c'. CoordinateConverter_init cfg = Inr c')) \<and>
     (CoordinateConverter_init cfg = Inr c \<longrightarrow>
        sz ! (2 - i) - pad ! (2 * i) - pad ! (2 * i + 1) + cut_fwd cfg i + cut_back cfg i \<noteq> 0 \<and>
        dx c ! i = (snd (bb ! i) - fst (bb ! i)) /
          of_int (sz ! (2 - i) - pad ! (2 * i) - pad ! (2 * i + 1) + cut_fwd cfg i + cut_back cfg i) \<and>
        offset c ! i = - pad ! (2 * i) + cut_fwd cfg i \<and>
        (cfg_cuts cfg = None \<and> (\<forall>p\<in>set pad. p = 0) \<longrightarrow>
           dx c ! i = (snd (bb ! i) - fst (bb ! i)) / of_int (sz ! (2 - i)) \<and> offset c ! i = 0))"
proof (rule conjI)
  show "nonzero_sizes cfg \<longrightarrow> (\<exists>c'. CoordinateConverter_init cfg = Inr c')"
    using assms(1) by (blast intro: init_succeeds)
next
  from assms(1,2) have "length bb = 3" by (simp add: well_formed_def)
  with assms(5) have i: "i < length bb" by simp
  show "CoordinateConverter_init cfg = Inr c \<longrightarrow>
        sz ! (2 - i) - pad ! (2 * i) - pad ! (2 * i + 1) + cut_fwd cfg i + cut_back cfg i \<noteq> 0 \<and>
        dx c ! i = (snd (bb ! i) - fst (bb ! i)) /
          of_int (sz ! (2 - i) - pad ! (2 * i) - pad ! (2 * i + 1) + cut_fwd cfg i + cut_back cfg i) \<and>
        offset c ! i = - pad ! (2 * i) + cut_fwd cfg i \<and>
        (cfg_cuts cfg = None \<and> (\<forall>p\<in>set pad. p = 0) \<longrightarrow>
           dx c ! i = (snd (bb ! i) - fst (bb ! i)) / of_int (sz ! (2 - i)) \<and> offset c ! i = 0)"
  proof
    assume c: "CoordinateConverter_init cfg = Inr c"
    show "sz ! (2 - i) - pad ! (2 * i) - pad ! (2 * i + 1) + cut_fwd cfg i + cut_back cfg i \<noteq> 0 \<and>
        dx c ! i = (snd (bb ! i) - fst (bb ! i)) /
          of_int (sz ! (2 - i) - pad ! (2 * i) - pad ! (2 * i + 1) + cut_fwd cfg i + cut_back cfg i) \<and>
        offset c ! i = - pad ! (2 * i) + cut_fwd cfg i \<and>
        (cfg_cuts cfg = None \<and> (\<forall>p\<in>set pad. p = 0) \<longrightarrow>
           dx c ! i = (snd (bb ! i) - fst (bb ! i)) / of_int (sz ! (2 - i)) \<and> offset c ! i = 0)"
      by (rule stored_cell_size_and_offset [OF c assms(2,3,4,5) i])
  qed
qed

theorem cell_size_and_offset_witness:
  "(well_formed cfg_padded \<and> nonzero_sizes cfg_padded \<and>
    CoordinateConverter_init cfg_padded = Inr conv_padded \<and>
    dx conv_padded ! 0 = (1 - 0) / of_int (10 - 1 - 2 + 1 + 0) \<and>
    offset conv_padded ! 0 = - 1 + 1) \<and>
   (well_formed cfg_example \<and> nonzero_sizes cfg_example \<and>
    CoordinateConverter_init cfg_example = Inr conv_example \<and>
    dx conv_example ! 1 = (2 - 0) / of_int 10 \<and> offset conv_example ! 1 = 0)"
proof -
  have p: "well_formed cfg_padded" "nonzero_sizes cfg_padded"
    by (simp_all add: well_formed_def nonzero_sizes_def unpadded_uncut_size_def
        cut_fwd_def cut_back_def cfg_padded_def axes_permutations_def)
  have e: "well_formed cfg_example" "nonzero_sizes cfg_example"
    by (simp_all add: well_formed_def nonzero_sizes_def unpadded_uncut_size_def
        cut_fwd_def cut_back_def cfg_example_def axes_permutations_def)
  have ip: "CoordinateConverter_init cfg_padded = Inr conv_padded"
    by (simp add: CoordinateConverter_init_def cfg_padded_def conv_padded_def init_body_def
        py_simps)
  have ie: "CoordinateConverter_init cfg_example = Inr conv_example"
    by (simp add: CoordinateConverter_init_def cfg_example_def conv_example_def init_body_def
        py_simps)
  have 1: "dx conv_padded ! 0 = (1 - 0) / of_int (10 - 1 - 2 + 1 + 0) \<and>
      offset conv_padded ! 0 = - 1 + 1"
    using cell_size_and_offset [OF p(1), of "[(0, 1), (0, 2), (0, 3)]" "[14, 13, 10]"
        "[1, 2, 1, 2, 1, 1]" 0 conv_padded] ip
    by (simp add: cfg_padded_def cut_fwd_def cut_back_def)
  have 2: "dx conv_example ! 1 = (2 - 0) / of_int 10 \<and> offset conv_example ! 1 = 0"
    using cell_size_and_offset [OF e(1), of "[(0, 1), (0, 2), (0, 3)]" "[12, 10, 8]"
        "[0, 0, 0, 0, 0, 0]" 1 conv_example] ie
    by (simp add: cfg_example_def cut_fwd_def cut_back_def)
  from p e 1 2 ip ie show ?thesis by blast
qed

section \<open>Round trips\<close>

lemma round_trip_converter:
  assumes "a \<in> set [ [0, 1, 2], [0, 2, 1], [1, 0, 2], [2, 0, 1], [1, 2, 0], [2, 1, 0] ]"
    and "d0 \<noteq> 0" and "d1 \<noteq> 0" and "d2 \<noteq> 0"
  shows "\<exists>l. to_lb v \<lparr>axes = a, dx = [d0, d1, d2], offset = [o0, o1, o2],
                      phys_min_x = [m0, m1, m2]\<rparr> [p0, p1, p2] False = Inr l \<and>
     from_lb \<lparr>axes = a, dx = [d0, d1, d2], offset = [o0, o1, o2],
              phys_min_x = [m0, m1, m2]\<rparr> l = Inr [p0, p1, p2]"
proof -
  from assms(1) consider "a = [0, 1, 2]" | "a = [0, 2, 1]" | "a = [1, 0, 2]"
    | "a = [2, 0, 1]" | "a = [1, 2, 0]" | "a = [2, 1, 0]" by auto
  then show ?thesis
  proof cases
    case 1 with assms(2-4) show ?thesis by (simp add: to_lb_def from_lb_def py_simps)
  next
    case 2 with assms(2-4) show ?thesis by (simp add: to_lb_def from_lb_def py_simps)
  next
    case 3 with assms(2-4) show ?thesis by (simp add: to_lb_def from_lb_def py_simps)
  next
    case 4 with assms(2-4) show ?thesis by (simp add: to_lb_def from_lb_def py_simps)
  next
    case 5 with assms(2-4) show ?thesis by (simp add: to_lb_def from_lb_def py_simps)
  next
    case 6 with assms(2-4) show ?thesis by (simp add: to_lb_def from_lb_def py_simps)
  qed
qed

text \<open>
  C2, as amended. For every configuration of the data model (any permutation in axes,
  any padding and cuts) whose per-axis lattice sizes are nonzero and whose bounding box
  has nonzero width on each axis, the construction succeeds, and for every physical
  position \<open>p\<close> of three reals (inside the bounding box or not) \<^verbatim>\<open>to_lb\<close> without
  rounding succeeds and \<^verbatim>\<open>from_lb\<close> of its result is \<open>p\<close>.
\<close>

theorem round_trip_physical:
  assumes "well_formed cfg" and "nonzero_sizes cfg" and "nonzero_widths cfg"
    and "length p = 3"
  shows "\<exists>c l. CoordinateConverter_init cfg = Inr c \<and> to_lb v c p False = Inr l \<and>
     from_lb c l = Inr p"
proof -
  from init_nondegenerate [OF assms(1-3)] obtain a d0 d1 d2 o0 o1 o2 m0 m1 m2 where
    a: "a \<in> set [ [0, 1, 2], [0, 2, 1], [1, 0, 2], [2, 0, 1], [1, 2, 0], [2, 1, 0] ]"
    and d: "d0 \<noteq> 0" "d1 \<noteq> 0" "d2 \<noteq> 0"
    and c: "CoordinateConverter_init cfg =
       Inr \<lparr>axes = a, dx = [d0, d1, d2], offset = [o0, o1, o2], phys_min_x = [m0, m1, m2]\<rparr>"
    by blast
  from assms(4) obtain p0 p1 p2 where p: "p = [p0, p1, p2]" using length3 by blast
  from round_trip_converter [OF a d, of v o0 o1 o2 m0 m1 m2 p0 p1 p2] c
  show ?thesis unfolding p by blast
qed

theorem round_trip_physical_witness:
  "well_formed cfg_padded \<and> nonzero_sizes cfg_padded \<and> nonzero_widths cfg_padded \<and>
   (\<exists>c l. CoordinateConverter_init cfg_padded = Inr c \<and>
      to_lb Py3 c [1 / 2, 1, 3 / 2] False = Inr l \<and> from_lb c l = Inr [1 / 2, 1, 3 / 2])"
  using well_formed_padded round_trip_physical [of cfg_padded "[1 / 2, 1, 3 / 2]" Py3]
  by simp

text \<open>
  The claim as stated fails on a bounding box of zero width: with sizes [1, 8, 8] and
  the box [(0, 1), (0, 1), (0, 0)] the construction succeeds with a cell size 0 on z, and
  \<^verbatim>\<open>to_lb\<close> of the position [0.5, 0.5, 0], which is inside the box, raises
  ZeroDivisionError.
\<close>

theorem zero_width_box_counterexample:
  "CoordinateConverter_init cfg_flat = Inr conv_flat \<and>
   to_lb Py2 conv_flat [1 / 2, 1 / 2, 0] False = Inl ZeroDivisionError \<and>
   to_lb Py3 conv_flat [1 / 2, 1 / 2, 0] False = Inl ZeroDivisionError"
  by (simp add: CoordinateConverter_init_def cfg_flat_def conv_flat_def init_body_def
      to_lb_def py_simps)

section \<open>The padding key\<close>

lemma init_loop_without_padding:
  "cfg_padding cfg = None \<Longrightarrow> init_loop cfg i (b # bs) = Inl KeyError"
  by (simp add: init_body_def py_key_def)

text \<open>
  C5, as amended. The padding key is required: on a configuration without it whose
  bounding box is not empty the construction raises, and the exception is KeyError when
  axes is a permutation of "xyz".
\<close>

theorem padding_is_required:
  assumes "cfg_padding cfg = None" and "cfg_bounding_box cfg = Some bb" and "bb \<noteq> []"
  shows "(\<exists>e. CoordinateConverter_init cfg = Inl e) \<and>
     (cfg_axes cfg = Some ax \<and> ax \<in> set axes_permutations \<longrightarrow>
        CoordinateConverter_init cfg = Inl KeyError)"
proof -
  from assms(3) obtain b bs where bb: "bb = b # bs" by (cases bb) auto
  have l: "init_loop cfg 0 bb = Inl KeyError"
    unfolding bb by (rule init_loop_without_padding [OF assms(1)])
  have 1: "\<exists>e. CoordinateConverter_init cfg = Inl e"
    unfolding CoordinateConverter_init_def
    by (auto simp: bindE_def py_key_def assms(2) l split: sum.splits option.splits)
  have 2: "cfg_axes cfg = Some ax \<and> ax \<in> set axes_permutations \<longrightarrow>
        CoordinateConverter_init cfg = Inl KeyError"
  proof
    assume h: "cfg_axes cfg = Some ax \<and> ax \<in> set axes_permutations"
    with axes_of_permutation obtain ix iy iz where
      "py_index ax CHR ''x'' = Inr ix" "py_index ax CHR ''y'' = Inr iy"
      "py_index ax CHR ''z'' = Inr iz" by blast
    with h show "CoordinateConverter_init cfg = Inl KeyError"
      unfolding CoordinateConverter_init_def by (simp add: py_key_def assms(2) l)
  qed
  from 1 2 show ?thesis by blast
qed

theorem padding_is_required_witness:
  "(\<exists>e. CoordinateConverter_init (cfg_example\<lparr>cfg_padding := None\<rparr>) = Inl e) \<and>
   CoordinateConverter_init (cfg_example\<lparr>cfg_padding := None\<rparr>) = Inl KeyError"
  using padding_is_required [of "cfg_example\<lparr>cfg_padding := None\<rparr>"
      "[(0, 1), (0, 2), (0, 3)]" "''xyz''"]
  by (simp add: cfg_example_def axes_permutations_def)

text \<open>
  The claim as stated fails: the example configuration without its padding key raises
  KeyError, whereas with padding [0, 0, 0, 0, 0, 0] it builds the example converter.
\<close>

theorem missing_padding_counterexample:
  "CoordinateConverter_init (cfg_example\<lparr>cfg_padding := None\<rparr>) = Inl KeyError \<and>
   CoordinateConverter_init (cfg_example\<lparr>cfg_padding := Some [0, 0, 0, 0, 0, 0]\<rparr>) =
     Inr conv_example"
  by (simp add: CoordinateConverter_init_def cfg_example_def conv_example_def init_body_def
      py_simps)

section \<open>UnitConverter: construction\<close>

text \<open>
  C8. With \<open>Re\<close> given and exactly one of visc, length, velocity \<^verbatim>\<open>None\<close>, the
  constructor derives the missing one: visc = length * velocity / Re, or
  length = Re * visc / velocity, or velocity = Re * visc / length (the divisor not zero).
  The branches are tried in the order visc, length, velocity: when visc is missing, length
  and velocity are stored as given; when visc is given and length is missing, velocity is
  stored as given. So at most the first missing field is derived.
\<close>

theorem init_derives_missing_physical_parameter:
  "(re \<noteq> 0 \<longrightarrow>
      UnitConverter_init None (Some l) (Some w) (Some re) f =
        Inr \<lparr>phys_visc = Some (l * w / re), phys_len = Some l, phys_vel = Some w,
             phys_freq = f, lb_visc = None, lb_len = None, lb_vel = None\<rparr>) \<and>
   (w \<noteq> 0 \<longrightarrow>
      UnitConverter_init (Some nu) None (Some w) (Some re) f =
        Inr \<lparr>phys_visc = Some nu, phys_len = Some (re * nu / w), phys_vel = Some w,
             phys_freq = f, lb_visc = None, lb_len = None, lb_vel = None\<rparr>) \<and>
   (l \<noteq> 0 \<longrightarrow>
      UnitConverter_init (Some nu) (Some l) None (Some re) f =
        Inr \<lparr>phys_visc = Some nu, phys_len = Some l, phys_vel = Some (re * nu / l),
             phys_freq = f, lb_visc = None, lb_len = None, lb_vel = None\<rparr>) \<and>
   (UnitConverter_init visc len velocity (Some re) f = Inr u \<longrightarrow>
      (visc = None \<longrightarrow> phys_len u = len \<and> phys_vel u = velocity) \<and>
      (visc \<noteq> None \<longrightarrow> phys_visc u = visc \<and>
         (len = None \<longrightarrow> phys_vel u = velocity) \<and> (len \<noteq> None \<longrightarrow> phys_len u = len)))"
proof (intro conjI)
  show "UnitConverter_init visc len velocity (Some re) f = Inr u \<longrightarrow>
      (visc = None \<longrightarrow> phys_len u = len \<and> phys_vel u = velocity) \<and>
      (visc \<noteq> None \<longrightarrow> phys_visc u = visc \<and>
         (len = None \<longrightarrow> phys_vel u = velocity) \<and> (len \<noteq> None \<longrightarrow> phys_len u = len))"
    by (cases visc; cases len; cases velocity)
       (auto simp: UnitConverter_init_def py_num_def py_div_def split: if_splits)
qed (simp_all add: UnitConverter_init_def py_num_def py_div_def)

theorem init_derives_missing_physical_parameter_witness:
  "UnitConverter_init None (Some 3) (Some 4) (Some 6) None =
     Inr \<lparr>phys_visc = Some (3 * 4 / 6), phys_len = Some 3, phys_vel = Some 4,
          phys_freq = None, lb_visc = None, lb_len = None, lb_vel = None\<rparr> \<and>
   UnitConverter_init (Some 2) None (Some 4) (Some 6) None =
     Inr \<lparr>phys_visc = Some 2, phys_len = Some (6 * 2 / 4), phys_vel = Some 4,
          phys_freq = None, lb_visc = None, lb_len = None, lb_vel = None\<rparr> \<and>
   UnitConverter_init (Some 2) (Some 3) None (Some 6) None =
     Inr \<lparr>phys_visc = Some 2, phys_len = Some 3, phys_vel = Some (6 * 2 / 3),
          phys_freq = None, lb_visc = None, lb_len = None, lb_vel = None\<rparr> \<and>
   phys_vel \<lparr>phys_visc = Some 2, phys_len = Some (6 * 2 / 4), phys_vel = Some 4,
          phys_freq = None, lb_visc = None, lb_len = None, lb_vel = None\<rparr> = Some 4"
  using init_derives_missing_physical_parameter [where re = 6 and l = 3 and w = 4 and nu = 2
      and f = None and visc = "Some 2" and len = None and velocity = "Some 4"
      and u = "\<lparr>phys_visc = Some 2, phys_len = Some (6 * 2 / 4), phys_vel = Some 4,
          phys_freq = None, lb_visc = None, lb_len = None, lb_vel = None\<rparr>"]
  by simp

section \<open>UnitConverter: lattice parameters\<close>

lemma Re_phys_only:
  "phys_len u' = phys_len u \<Longrightarrow> phys_vel u' = phys_vel u \<Longrightarrow> phys_visc u' = phys_visc u \<Longrightarrow> Re_phys u' = Re_phys u"
  by (simp add: Re_phys_def)

lemma update_phys:
  "phys_visc (fst (update_missing_parameters m)) = phys_visc m"
  "phys_len (fst (update_missing_parameters m)) = phys_len m"
  "phys_vel (fst (update_missing_parameters m)) = phys_vel m"
  "phys_freq (fst (update_missing_parameters m)) = phys_freq m"
  by (simp_all add: update_missing_parameters_def split: option.splits sum.splits)

lemma update_keeps_set:
  "lb_visc m = Some x \<Longrightarrow> lb_visc (fst (update_missing_parameters m)) = Some x"
  "lb_len m = Some y \<Longrightarrow> lb_len (fst (update_missing_parameters m)) = Some y"
  "lb_vel m = Some z \<Longrightarrow> lb_vel (fst (update_missing_parameters m)) = Some z"
  by (simp_all add: update_missing_parameters_def split: option.splits sum.splits)

lemma update_at_most_one:
  "n_set (fst (update_missing_parameters m)) \<le> n_set m + 1"
  by (simp add: update_missing_parameters_def n_set_def split: option.splits sum.splits)

lemma update_no_derivation:
  "n_set m \<noteq> 2 \<Longrightarrow> update_missing_parameters m = (m, None)"
  by (cases "lb_visc m"; cases "lb_len m"; cases "lb_vel m")
     (simp_all add: update_missing_parameters_def n_set_def)

lemma update_derive_visc:
  assumes "lb_visc m = None" "lb_len m = Some l" "lb_vel m = Some w" "Re_phys m = Inr r" "r \<noteq> 0"
  shows "update_missing_parameters m =
     (m\<lparr>lb_visc := Some (l * w / r)\<rparr>, if l * w / r \<le> 1 / 6 then None else Some AssertionError)"
  using assms by (simp add: update_missing_parameters_def py_div_def)

lemma update_derive_len:
  assumes "lb_visc m = Some nu" "lb_len m = None" "lb_vel m = Some w" "Re_phys m = Inr r" "w \<noteq> 0"
  shows "update_missing_parameters m = (m\<lparr>lb_len := Some (r * nu / w)\<rparr>, None)"
  using assms by (simp add: update_missing_parameters_def py_div_def)

lemma update_derive_vel:
  assumes "lb_visc m = Some nu" "lb_len m = Some l" "lb_vel m = None" "Re_phys m = Inr r" "l \<noteq> 0"
  shows "update_missing_parameters m = (m\<lparr>lb_vel := Some (r * nu / l)\<rparr>, None)"
  using assms by (simp add: update_missing_parameters_def py_div_def)

lemma Re_errors: "Re_phys u = Inl e \<Longrightarrow> e = TypeError \<or> e = ZeroDivisionError"
  by (auto simp: Re_phys_def py_num_def py_div_def split: option.splits if_splits)

lemma Re_div_errors:
  "bindE (Re_phys u) (\<lambda>r. py_div (f r) b) = Inl e \<Longrightarrow> e = TypeError \<or> e = ZeroDivisionError"
  by (cases "Re_phys u") (auto simp: py_div_def dest: Re_errors split: if_splits)

lemma update_assertion_only_when_deriving_visc:
  "snd (update_missing_parameters m) = Some AssertionError \<Longrightarrow> lb_visc m = None"
  by (cases "lb_visc m"; cases "lb_len m"; cases "lb_vel m")
     (auto simp: update_missing_parameters_def split: sum.splits dest: Re_div_errors)

lemma assign_fields:
  "lb_visc (set_lb_assign u visc len velocity) = (case visc of None \<Rightarrow> lb_visc u | Some x \<Rightarrow> Some x)"
  "lb_len (set_lb_assign u visc len velocity) = (case len of None \<Rightarrow> lb_len u | Some x \<Rightarrow> Some x)"
  "lb_vel (set_lb_assign u visc len velocity) = (case velocity of None \<Rightarrow> lb_vel u | Some x \<Rightarrow> Some x)"
  "phys_visc (set_lb_assign u visc len velocity) = phys_visc u"
  "phys_len (set_lb_assign u visc len velocity) = phys_len u"
  "phys_vel (set_lb_assign u visc len velocity) = phys_vel u"
  "phys_freq (set_lb_assign u visc len velocity) = phys_freq u"
  by (simp_all add: set_lb_assign_def)

lemma init_uc_unit: "UnitConverter_init (Some 1) (Some 1) (Some 1) None None = Inr uc_unit"
  by (simp add: UnitConverter_init_def uc_unit_def)

lemma Re_uc_unit: "Re_phys uc_unit = Inr 1"
  by (simp add: Re_phys_def uc_unit_def py_num_def py_div_def)

lemma set_lb_Re: "Re_phys (fst (set_lb u visc len velocity)) = Re_phys u"
  unfolding set_lb_def by (rule Re_phys_only) (simp_all add: update_phys assign_fields)

lemma assign_Re: "Re_phys (set_lb_assign u visc len velocity) = Re_phys u"
  by (rule Re_phys_only) (simp_all add: assign_fields)

text \<open>
  C9. In the converter that \<^verbatim>\<open>set_lb\<close> leaves, every lattice field whose argument was
  given holds that argument, and every field whose argument was \<^verbatim>\<open>None\<close> and that was
  set before holds its old value. The completion sets at most one more field. When the
  number of fields set after the assignments is not two (fewer than two, or all three),
  the call returns the converter as the assignments left it and raises nothing.
\<close>

theorem set_lb_overwrites_then_completes:
  "(visc = Some x \<longrightarrow> lb_visc (fst (set_lb u visc len velocity)) = Some x) \<and>
   (len = Some y \<longrightarrow> lb_len (fst (set_lb u visc len velocity)) = Some y) \<and>
   (velocity = Some z \<longrightarrow> lb_vel (fst (set_lb u visc len velocity)) = Some z) \<and>
   (visc = None \<and> lb_visc u = Some x' \<longrightarrow> lb_visc (fst (set_lb u visc len velocity)) = Some x') \<and>
   (len = None \<and> lb_len u = Some y' \<longrightarrow> lb_len (fst (set_lb u visc len velocity)) = Some y') \<and>
   (velocity = None \<and> lb_vel u = Some z' \<longrightarrow> lb_vel (fst (set_lb u visc len velocity)) = Some z') \<and>
   n_set (fst (set_lb u visc len velocity)) \<le> n_set (set_lb_assign u visc len velocity) + 1 \<and>
   (n_set (set_lb_assign u visc len velocity) \<noteq> 2 \<longrightarrow>
      set_lb u visc len velocity = (set_lb_assign u visc len velocity, None))"
  unfolding set_lb_def
  by (intro conjI impI update_at_most_one update_no_derivation update_keeps_set)
     (simp_all add: assign_fields)

theorem set_lb_overwrites_then_completes_witness:
  "lb_visc (fst (set_lb uc_unit (Some (1 / 10)) (Some 1) None)) = Some (1 / 10) \<and>
   lb_len (fst (set_lb uc_unit (Some (1 / 10)) (Some 1) None)) = Some 1 \<and>
   set_lb uc_unit None None (Some 1) = (set_lb_assign uc_unit None None (Some 1), None) \<and>
   lb_vel (fst (set_lb uc_unit None None (Some 1))) = Some 1 \<and>
   lb_vel (fst (set_lb (uc_unit\<lparr>lb_vel := Some 2\<rparr>) None None None)) = Some 2"
proof -
  have 1: "lb_visc (fst (set_lb uc_unit (Some (1 / 10)) (Some 1) None)) = Some (1 / 10) \<and>
      lb_len (fst (set_lb uc_unit (Some (1 / 10)) (Some 1) None)) = Some 1"
    using set_lb_overwrites_then_completes [of "Some (1 / 10)" "1 / 10" uc_unit "Some 1" None 1]
    by simp
  have n: "n_set (set_lb_assign uc_unit None None (Some 1)) \<noteq> 2"
    by (simp add: n_set_def set_lb_assign_def uc_unit_def)
  have 2: "set_lb uc_unit None None (Some 1) = (set_lb_assign uc_unit None None (Some 1), None) \<and>
      lb_vel (fst (set_lb uc_unit None None (Some 1))) = Some 1"
    using set_lb_overwrites_then_completes [of None _ uc_unit None "Some 1" _ 1] n
    by (simp add: assign_fields)
  have 3: "lb_vel (fst (set_lb (uc_unit\<lparr>lb_vel := Some 2\<rparr>) None None None)) = Some 2"
    using set_lb_overwrites_then_completes [of None _ "uc_unit\<lparr>lb_vel := Some 2\<rparr>" None None
        _ _ _ _ 2]
    by simp
  from 1 2 3 show ?thesis by blast
qed

text \<open>
  C6, as amended. The stability bound is asserted only where \<^verbatim>\<open>lb_visc\<close> is derived:
  when after the assignments \<^verbatim>\<open>lb_visc\<close> is unset and \<^verbatim>\<open>lb_len\<close>, \<^verbatim>\<open>lb_vel\<close> are set, a
  derived value \<open>lb_len * lb_vel / Re\<close> above 1/6 makes the call raise AssertionError,
  and a call that returns normally leaves \<^verbatim>\<open>lb_visc\<close> at most 1/6. A viscosity that the
  caller supplies is stored as it is and never raises AssertionError.
\<close>

theorem stability_bound_on_derived_visc:
  "(lb_visc (set_lb_assign u visc len velocity) = None \<and>
    lb_len (set_lb_assign u visc len velocity) = Some l \<and>
    lb_vel (set_lb_assign u visc len velocity) = Some w \<and>
    Re_phys u = Inr r \<and> r \<noteq> 0 \<and> 1 / 6 < l * w / r \<longrightarrow>
      snd (set_lb u visc len velocity) = Some AssertionError) \<and>
   (lb_visc (set_lb_assign u visc len velocity) = None \<and>
    lb_len (set_lb_assign u visc len velocity) = Some l \<and>
    lb_vel (set_lb_assign u visc len velocity) = Some w \<and>
    snd (set_lb u visc len velocity) = None \<longrightarrow>
      (\<exists>x. lb_visc (fst (set_lb u visc len velocity)) = Some x \<and> x \<le> 1 / 6)) \<and>
   (visc = Some x \<longrightarrow>
      lb_visc (fst (set_lb u visc len velocity)) = Some x \<and>
      snd (set_lb u visc len velocity) \<noteq> Some AssertionError)"
proof (intro conjI impI)
  assume a: "lb_visc (set_lb_assign u visc len velocity) = None \<and>
    lb_len (set_lb_assign u visc len velocity) = Some l \<and>
    lb_vel (set_lb_assign u visc len velocity) = Some w \<and>
    Re_phys u = Inr r \<and> r \<noteq> 0 \<and> 1 / 6 < l * w / r"
  then show "snd (set_lb u visc len velocity) = Some AssertionError"
    unfolding set_lb_def
    by (subst update_derive_visc [where l = l and w = w and r = r]) (simp_all add: assign_Re)
next
  assume a: "lb_visc (set_lb_assign u visc len velocity) = None \<and>
    lb_len (set_lb_assign u visc len velocity) = Some l \<and>
    lb_vel (set_lb_assign u visc len velocity) = Some w \<and>
    snd (set_lb u visc len velocity) = None"
  then show "\<exists>x. lb_visc (fst (set_lb u visc len velocity)) = Some x \<and> x \<le> 1 / 6"
    unfolding set_lb_def
    by (auto simp: update_missing_parameters_def split: sum.splits if_splits)
next
  assume a: "visc = Some x"
  then show "lb_visc (fst (set_lb u visc len velocity)) = Some x"
    unfolding set_lb_def by (intro update_keeps_set) (simp add: assign_fields)
  from a have "lb_visc (set_lb_assign u visc len velocity) \<noteq> None"
    by (simp add: assign_fields)
  then show "snd (set_lb u visc len velocity) \<noteq> Some AssertionError"
    unfolding set_lb_def by (auto dest: update_assertion_only_when_deriving_visc)
qed

theorem stability_bound_on_derived_visc_witness:
  "snd (set_lb uc_unit None (Some 1) (Some 1)) = Some AssertionError \<and>
   (\<exists>x. lb_visc (fst (set_lb uc_unit None (Some 1) (Some (1 / 10)))) = Some x \<and> x \<le> 1 / 6) \<and>
   lb_visc (fst (set_lb uc_unit (Some 1) None None)) = Some 1 \<and>
   snd (set_lb uc_unit (Some 1) None None) \<noteq> Some AssertionError"
proof -
  have 1: "snd (set_lb uc_unit None (Some 1) (Some 1)) = Some AssertionError"
    using stability_bound_on_derived_visc [of uc_unit None "Some 1" "Some 1" 1 1 1] Re_uc_unit
    by (simp add: assign_fields) (simp add: uc_unit_def)
  have s: "snd (set_lb uc_unit None (Some 1) (Some (1 / 10))) = None"
    by (simp add: set_lb_def set_lb_assign_def update_missing_parameters_def uc_unit_def
        Re_phys_def py_num_def py_div_def)
  have 2: "\<exists>x. lb_visc (fst (set_lb uc_unit None (Some 1) (Some (1 / 10)))) = Some x \<and> x \<le> 1 / 6"
    using stability_bound_on_derived_visc [of uc_unit None "Some 1" "Some (1 / 10)" 1 "1 / 10"] s
    by (simp add: assign_fields) (simp add: uc_unit_def)
  have 3: "lb_visc (fst (set_lb uc_unit (Some 1) None None)) = Some 1 \<and>
      snd (set_lb uc_unit (Some 1) None None) \<noteq> Some AssertionError"
    using stability_bound_on_derived_visc [of uc_unit "Some 1" None None _ _ _ 1] by simp
  from 1 2 3 show ?thesis by simp
qed

text \<open>
  The claim as stated fails: \<^verbatim>\<open>set_lb(visc=1)\<close> on \<^verbatim>\<open>UnitConverter(visc=1, length=1,
  velocity=1)\<close> returns normally with \<^verbatim>\<open>lb_visc = 1\<close>, above 1/6.
\<close>

theorem supplied_visc_unchecked_counterexample:
  "UnitConverter_init (Some 1) (Some 1) (Some 1) None None = Inr uc_unit \<and>
   set_lb uc_unit (Some 1) None None = (uc_unit\<lparr>lb_visc := Some 1\<rparr>, None) \<and>
   (1 / 6 :: real) < 1"
  by (simp add: init_uc_unit)
     (simp add: set_lb_def set_lb_assign_def update_missing_parameters_def uc_unit_def)

text \<open>
  C7, as amended. A converter built with visc = v, length = L, velocity = U, v not zero,
  has Re = L * U / v. When after the assignments of a \<^verbatim>\<open>set_lb\<close> call exactly two of the
  lattice fields are set, both to nonzero values, and Re is defined (and not zero where
  \<^verbatim>\<open>lb_visc\<close> is the field derived), the completion derives the third and afterwards
  \<^verbatim>\<open>Re_lb\<close> equals \<^verbatim>\<open>Re\<close>.
\<close>

theorem reynolds_invariant:
  "(v \<noteq> 0 \<longrightarrow> bindE (UnitConverter_init (Some v) (Some L) (Some U) re f) Re_phys = Inr (L * U / v)) \<and>
   (Re_phys u = Inr r \<and> r \<noteq> 0 \<and> l \<noteq> 0 \<and> w \<noteq> 0 \<and>
    lb_visc (set_lb_assign u visc len velocity) = None \<and>
    lb_len (set_lb_assign u visc len velocity) = Some l \<and>
    lb_vel (set_lb_assign u visc len velocity) = Some w \<longrightarrow>
      lb_visc (fst (set_lb u visc len velocity)) = Some (l * w / r) \<and>
      Re_lb (fst (set_lb u visc len velocity)) = Inr r \<and>
      Re_phys (fst (set_lb u visc len velocity)) = Inr r) \<and>
   (Re_phys u = Inr r \<and> nu \<noteq> 0 \<and> w \<noteq> 0 \<and>
    lb_visc (set_lb_assign u visc len velocity) = Some nu \<and>
    lb_len (set_lb_assign u visc len velocity) = None \<and>
    lb_vel (set_lb_assign u visc len velocity) = Some w \<longrightarrow>
      set_lb u visc len velocity =
        ((set_lb_assign u visc len velocity)\<lparr>lb_len := Some (r * nu / w)\<rparr>, None) \<and>
      Re_lb (fst (set_lb u visc len velocity)) = Inr r \<and>
      Re_phys (fst (set_lb u visc len velocity)) = Inr r) \<and>
   (Re_phys u = Inr r \<and> nu \<noteq> 0 \<and> l \<noteq> 0 \<and>
    lb_visc (set_lb_assign u visc len velocity) = Some nu \<and>
    lb_len (set_lb_assign u visc len velocity) = Some l \<and>
    lb_vel (set_lb_assign u visc len velocity) = None \<longrightarrow>
      set_lb u visc len velocity =
        ((set_lb_assign u visc len velocity)\<lparr>lb_vel := Some (r * nu / l)\<rparr>, None) \<and>
      Re_lb (fst (set_lb u visc len velocity)) = Inr r \<and>
      Re_phys (fst (set_lb u visc len velocity)) = Inr r)"
proof (intro conjI impI)
  assume "v \<noteq> 0"
  then show "bindE (UnitConverter_init (Some v) (Some L) (Some U) re f) Re_phys = Inr (L * U / v)"
    by (cases re) (simp_all add: UnitConverter_init_def Re_phys_def py_num_def py_div_def)
next
  assume a: "Re_phys u = Inr r \<and> r \<noteq> 0 \<and> l \<noteq> 0 \<and> w \<noteq> 0 \<and>
    lb_visc (set_lb_assign u visc len velocity) = None \<and>
    lb_len (set_lb_assign u visc len velocity) = Some l \<and>
    lb_vel (set_lb_assign u visc len velocity) = Some w"
  then have e: "fst (set_lb u visc len velocity) =
      (set_lb_assign u visc len velocity)\<lparr>lb_visc := Some (l * w / r)\<rparr>"
    unfolding set_lb_def
    by (subst update_derive_visc [where l = l and w = w and r = r]) (simp_all add: assign_Re)
  show "lb_visc (fst (set_lb u visc len velocity)) = Some (l * w / r)"
    by (simp add: e)
  show "Re_lb (fst (set_lb u visc len velocity)) = Inr r"
    using a by (simp add: e Re_lb_def py_num_def py_div_def)
  show "Re_phys (fst (set_lb u visc len velocity)) = Inr r"
    using a by (simp add: set_lb_Re)
next
  assume a: "Re_phys u = Inr r \<and> nu \<noteq> 0 \<and> w \<noteq> 0 \<and>
    lb_visc (set_lb_assign u visc len velocity) = Some nu \<and>
    lb_len (set_lb_assign u visc len velocity) = None \<and>
    lb_vel (set_lb_assign u visc len velocity) = Some w"
  then show e: "set_lb u visc len velocity =
      ((set_lb_assign u visc len velocity)\<lparr>lb_len := Some (r * nu / w)\<rparr>, None)"
    unfolding set_lb_def
    by (intro update_derive_len) (simp_all add: assign_Re)
  show "Re_lb (fst (set_lb u visc len velocity)) = Inr r"
    using a by (simp add: e Re_lb_def py_num_def py_div_def)
  show "Re_phys (fst (set_lb u visc len velocity)) = Inr r"
    using a by (simp add: set_lb_Re)
next
  assume a: "Re_phys u = Inr r \<and> nu \<noteq> 0 \<and> l \<noteq> 0 \<and>
    lb_visc (set_lb_assign u visc len velocity) = Some nu \<and>
    lb_len (set_lb_assign u visc len velocity) = Some l \<and>
    lb_vel (set_lb_assign u visc len velocity) = None"
  then show e: "set_lb u visc len velocity =
      ((set_lb_assign u visc len velocity)\<lparr>lb_vel := Some (r * nu / l)\<rparr>, None)"
    unfolding set_lb_def
    by (intro update_derive_vel) (simp_all add: assign_Re)
  show "Re_lb (fst (set_lb u visc len velocity)) = Inr r"
    using a by (simp add: e Re_lb_def py_num_def py_div_def)
  show "Re_phys (fst (set_lb u visc len velocity)) = Inr r"
    using a by (simp add: set_lb_Re)
qed

theorem reynolds_invariant_witness:
  "bindE (UnitConverter_init (Some 2) (Some 3) (Some 4) None None) Re_phys = Inr (3 * 4 / 2) \<and>
   Re_lb (fst (set_lb uc_unit None (Some 1) (Some (1 / 10)))) = Inr 1 \<and>
   Re_lb (fst (set_lb uc_unit (Some (1 / 10)) None (Some (1 / 10)))) = Inr 1 \<and>
   Re_lb (fst (set_lb uc_unit (Some (1 / 10)) (Some 1) None)) = Inr 1"
proof -
  note inv = reynolds_invariant [where u = uc_unit and r = 1]
  have 1: "bindE (UnitConverter_init (Some 2) (Some 3) (Some 4) None None) Re_phys = Inr (3 * 4 / 2)"
    by (rule reynolds_invariant [THEN conjunct1, THEN mp]) simp
  have 2: "Re_lb (fst (set_lb uc_unit None (Some 1) (Some (1 / 10)))) = Inr 1"
    by (rule inv [where l = 1 and w = "1 / 10", THEN conjunct2, THEN conjunct1, THEN mp,
          THEN conjunct2, THEN conjunct1])
       (simp add: Re_uc_unit assign_fields, simp add: uc_unit_def)
  have 3: "Re_lb (fst (set_lb uc_unit (Some (1 / 10)) None (Some (1 / 10)))) = Inr 1"
    by (rule inv [where nu = "1 / 10" and w = "1 / 10", THEN conjunct2, THEN conjunct2,
          THEN conjunct1, THEN mp, THEN conjunct2, THEN conjunct1])
       (simp add: Re_uc_unit assign_fields, simp add: uc_unit_def)
  have 4: "Re_lb (fst (set_lb uc_unit (Some (1 / 10)) (Some 1) None)) = Inr 1"
    by (rule inv [where nu = "1 / 10" and l = 1, THEN conjunct2, THEN conjunct2,
          THEN conjunct2, THEN mp, THEN conjunct2, THEN conjunct1])
       (simp add: Re_uc_unit assign_fields, simp add: uc_unit_def)
  from 1 2 3 4 show ?thesis by simp
qed

text \<open>
  The claim as stated fails where a supplied lattice value is zero:
  \<^verbatim>\<open>set_lb(visc=0, length=1)\<close> on \<^verbatim>\<open>UnitConverter(visc=1, length=1, velocity=1)\<close> derives
  \<^verbatim>\<open>lb_vel = 0\<close>, after which \<^verbatim>\<open>Re\<close> is 1 and \<^verbatim>\<open>Re_lb\<close> raises ZeroDivisionError.
\<close>

theorem zero_lattice_value_counterexample:
  "UnitConverter_init (Some 1) (Some 1) (Some 1) None None = Inr uc_unit \<and>
   set_lb uc_unit (Some 0) (Some 1) None =
     (uc_unit\<lparr>lb_visc := Some 0, lb_len := Some 1, lb_vel := Some 0\<rparr>, None) \<and>
   Re_phys (uc_unit\<lparr>lb_visc := Some 0, lb_len := Some 1, lb_vel := Some 0\<rparr>) = Inr 1 \<and>
   Re_lb (uc_unit\<lparr>lb_visc := Some 0, lb_len := Some 1, lb_vel := Some 0\<rparr>) = Inl ZeroDivisionError"
  by (simp add: init_uc_unit)
     (simp add: set_lb_def set_lb_assign_def update_missing_parameters_def uc_unit_def
       Re_phys_def Re_lb_def py_num_def py_div_def)

section \<open>UnitConverter: the time step\<close>

text \<open>
  C10, as amended. When \<^verbatim>\<open>lb_len\<close> is unset, \<^verbatim>\<open>dx\<close> is 0, and \<^verbatim>\<open>dt\<close> is 0 provided
  that \<^verbatim>\<open>lb_visc\<close> is unset or the physical viscosity is a number other than zero.
\<close>

theorem dt_zero_without_lb_len:
  assumes "lb_len u = None"
    and "lb_visc u = None \<or> (\<exists>pv. phys_visc u = Some pv \<and> pv \<noteq> 0)"
  shows "uc_dx u = Inr 0 \<and> dt u = Inr 0"
  using assms
  by (cases "lb_visc u") (auto simp: dt_def uc_dx_def py_num_def py_div_def)

theorem dt_zero_without_lb_len_witness:
  "dt (uc_unit\<lparr>lb_visc := Some (1 / 10)\<rparr>) = Inr 0 \<and> dt uc_unit = Inr 0"
  using dt_zero_without_lb_len [of "uc_unit\<lparr>lb_visc := Some (1 / 10)\<rparr>"]
    dt_zero_without_lb_len [of uc_unit]
  by (simp add: uc_unit_def)

text \<open>
  The claim as stated fails where the physical viscosity is unset:
  \<^verbatim>\<open>UnitConverter(length=1, velocity=1)\<close> after \<^verbatim>\<open>set_lb(visc=0.1)\<close> has \<^verbatim>\<open>lb_len\<close>
  unset, and \<^verbatim>\<open>dt\<close> raises TypeError on \<^verbatim>\<open>0.1 / None\<close>.
\<close>

theorem dt_without_phys_visc_counterexample:
  "UnitConverter_init None (Some 1) (Some 1) None None = Inr uc_no_visc \<and>
   set_lb uc_no_visc (Some (1 / 10)) None None = (uc_no_visc\<lparr>lb_visc := Some (1 / 10)\<rparr>, None) \<and>
   lb_len (uc_no_visc\<lparr>lb_visc := Some (1 / 10)\<rparr>) = None \<and>
   dt (uc_no_visc\<lparr>lb_visc := Some (1 / 10)\<rparr>) = Inl TypeError"
  by (simp add: UnitConverter_init_def set_lb_def set_lb_assign_def update_missing_parameters_def
      uc_no_visc_def dt_def py_num_def)

end
